theory Spec2Isabelle
  imports Complex_Main
begin

section \<open>Python strings\<close>

text \<open>
  A Python \<^verbatim>\<open>str\<close> is a sequence of Unicode code points and \<^verbatim>\<open>len\<close> counts code
  points, so a string is modelled as the list of its code points. \<open>ascii\<close> embeds an
  ASCII literal of the source; the non-ASCII literals of the source are written out as
  code points.
\<close>

type_synonym pystr = "nat list"

definition ascii :: "string \<Rightarrow> pystr" where
  "ascii s = map of_char s"

section \<open>The chat-completion facade: schemas/dto.py\<close>

text \<open>\<^verbatim>\<open>role: Literal["system", "user", "assistant"]\<close>: a closed enumeration.\<close>

datatype role = System | User | Assistant

record ChatMessage =
  role :: role
  content :: pystr

text \<open>
  \<^verbatim>\<open>temperature\<close> and \<^verbatim>\<open>max_tokens\<close> are accepted and never read by any code of the
  repository.
\<close>

record ChatCompletionRequest =
  model :: pystr
  messages :: "ChatMessage list"
  temperature :: "real option"
  max_tokens :: "int option"

record UsageInfo =
  prompt_tokens :: int
  completion_tokens :: int
  total_tokens :: int

text \<open>\<^verbatim>\<open>finish_reason: Literal["stop", "length"] = "stop"\<close>.\<close>

datatype finish_reason = Stop | Length

record ChatChoice =
  index :: int
  message :: ChatMessage
  finish_reason :: finish_reason

text \<open>
  The fields \<^verbatim>\<open>id\<close>, \<^verbatim>\<open>object\<close>, \<^verbatim>\<open>created\<close> and \<^verbatim>\<open>model\<close> occur in several classes
  of the source; each record prefixes them with the initials of its class.
\<close>

record ChatCompletionResponse =
  ccr_id :: pystr
  ccr_object :: pystr
  ccr_created :: int
  ccr_model :: pystr
  choices :: "ChatChoice list"
  usage :: UsageInfo

record ModelInfo =
  mi_id :: pystr
  mi_object :: pystr
  mi_created :: int
  mi_owned_by :: pystr

record ModelList =
  ml_object :: pystr
  ml_data :: "ModelInfo list"

text \<open>
  The constructors with the defaults of the class declarations. The two default
  factories read the clock (\<^verbatim>\<open>int(time.time())\<close>) and draw a random identifier
  (\<^verbatim>\<open>uuid.uuid4().hex\<close>); both values are arguments here.
\<close>

definition new_ModelInfo :: "int \<Rightarrow> pystr \<Rightarrow> ModelInfo" where
  "new_ModelInfo now i =
     \<lparr>mi_id = i, mi_object = ascii ''model'', mi_created = now,
      mi_owned_by = ascii ''local-api''\<rparr>"

definition new_ModelList :: "ModelInfo list \<Rightarrow> ModelList" where
  "new_ModelList d = \<lparr>ml_object = ascii ''list'', ml_data = d\<rparr>"

definition new_ChatChoice :: "int \<Rightarrow> ChatMessage \<Rightarrow> ChatChoice" where
  "new_ChatChoice i m = \<lparr>index = i, message = m, finish_reason = Stop\<rparr>"

definition new_ChatCompletionResponse ::
  "pystr \<Rightarrow> int \<Rightarrow> pystr \<Rightarrow> ChatChoice list \<Rightarrow> UsageInfo \<Rightarrow> ChatCompletionResponse" where
  "new_ChatCompletionResponse uuid_hex now m cs u =
     \<lparr>ccr_id = ascii ''chatcmpl-'' @ uuid_hex, ccr_object = ascii ''chat.completion'',
      ccr_created = now, ccr_model = m, choices = cs, usage = u\<rparr>"

section \<open>The chat-completion facade: app/openai\_compatable.py\<close>

text \<open>
  \<^verbatim>\<open>msg.model_dump()\<close> turns a message into a dictionary with the two keys
  \<^verbatim>\<open>"role"\<close> and \<^verbatim>\<open>"content"\<close>, both strings. \<open>fake_llm_call\<close> is typed on such
  dictionaries (\<^verbatim>\<open>List[Dict[str, str]]\<close>), whose role is any string.
\<close>

record msg_dict =
  d_role :: pystr
  d_content :: pystr

fun role_str :: "role \<Rightarrow> pystr" where
  "role_str System = ascii ''system''"
| "role_str User = ascii ''user''"
| "role_str Assistant = ascii ''assistant''"

definition model_dump :: "ChatMessage \<Rightarrow> msg_dict" where
  "model_dump msg = \<lparr>d_role = role_str (role msg), d_content = content msg\<rparr>"

text \<open>The fixed greeting, 14 code points, and the two halves of the reply template.\<close>

definition greeting :: pystr where
  "greeting = [20320, 22909, 65281, 26377, 20160, 20040, 21487, 20197, 24110, 21161,
               20320, 30340, 21527, 65311]"

definition reply_prefix :: pystr where
  "reply_prefix = [36825, 26159, 19968, 20010, 27169, 25311, 22238, 22797, 65292, 38024,
                   23545, 20320, 30340, 38382, 39064, 65306, 39]"

definition reply_suffix :: pystr where
  "reply_suffix = [39, 12290]"

definition reply_template :: "pystr \<Rightarrow> pystr" where
  "reply_template s = reply_prefix @ s @ reply_suffix"

text \<open>
  The loop \<^verbatim>\<open>for msg in reversed(messages)\<close> with its \<^verbatim>\<open>break\<close>: the first argument
  is what is left of the reversed list, the second the variable
  \<^verbatim>\<open>last_user_message\<close>.
\<close>

fun last_user_loop :: "msg_dict list \<Rightarrow> pystr \<Rightarrow> pystr" where
  "last_user_loop [] last_user_message = last_user_message"
| "last_user_loop (msg # rest) last_user_message =
     (if d_role msg = ascii ''user'' then d_content msg
      else last_user_loop rest last_user_message)"

definition fake_llm_call :: "msg_dict list \<Rightarrow> pystr" where
  "fake_llm_call msgs =
     (let last_user_message = last_user_loop (rev msgs) [] in
      if last_user_message = [] then greeting
      else reply_template last_user_message)"

text \<open>
  \<^verbatim>\<open>list_models\<close> builds three \<^verbatim>\<open>ModelInfo\<close> objects, each of which reads the clock
  for itself: \<open>t1\<close>, \<open>t2\<close>, \<open>t3\<close> are the three readings.
\<close>

definition list_models :: "int \<Rightarrow> int \<Rightarrow> int \<Rightarrow> ModelList" where
  "list_models t1 t2 t3 =
     (let available_models =
        [new_ModelInfo t1 (ascii ''gpt-3.5-turbo''),
         new_ModelInfo t2 (ascii ''gpt-4''),
         new_ModelInfo t3 (ascii ''custom-local-model'')]
      in new_ModelList available_models)"

datatype http_error = HTTPException int pystr

definition supported_models :: "pystr list" where
  "supported_models = [ascii ''gpt-3.5-turbo'', ascii ''gpt-4'', ascii ''custom-local-model'']"

text \<open>The detail \<^verbatim>\<open>f"Model '{request.model}' not found."\<close>; 39 is the apostrophe.\<close>

definition not_found_detail :: "pystr \<Rightarrow> pystr" where
  "not_found_detail m = ascii ''Model '' @ [39] @ m @ [39] @ ascii '' not found.''"

definition create_chat_completion ::
  "pystr \<Rightarrow> int \<Rightarrow> ChatCompletionRequest \<Rightarrow> http_error + ChatCompletionResponse" where
  "create_chat_completion uuid_hex now request =
     (if model request \<notin> set supported_models
      then Inl (HTTPException 400 (not_found_detail (model request)))
      else
        let messages_dict = map model_dump (messages request);
            assistant_response_content = fake_llm_call messages_dict;
            assistant_message = \<lparr>role = Assistant, content = assistant_response_content\<rparr>;
            choice = new_ChatChoice 0 assistant_message;
            prompt_tokens = sum_list (map (\<lambda>msg. int (length (d_content msg))) messages_dict);
            completion_tokens = int (length assistant_response_content);
            usage = \<lparr>prompt_tokens = prompt_tokens,
                     completion_tokens = completion_tokens,
                     total_tokens = prompt_tokens + completion_tokens\<rparr>
        in Inr (new_ChatCompletionResponse uuid_hex now (model request) [choice] usage))"

section \<open>HTTP routing: app/api.py and the router of app/openai\_compatable.py\<close>

text \<open>
  \<^verbatim>\<open>router = APIRouter(prefix="/v1")\<close> collects the three decorated handlers under the
  paths given to the decorators; \<^verbatim>\<open>app.include_router(router.router)\<close> registers each
  of them on the application under the router's prefix followed by its own path. A request
  is served by the first registered route with its method and its path; \<open>None\<close> stands
  for no route found (HTTP 404).
\<close>

datatype http_method = GET | POST

datatype endpoint = Ep_list_models | Ep_create_chat_completion | Ep_redirect_model_api

record route =
  rt_method :: http_method
  rt_path :: pystr
  rt_endpoint :: endpoint

record APIRouter =
  prefix :: pystr
  routes :: "route list"

definition router :: APIRouter where
  "router =
     \<lparr>prefix = ascii ''/v1'',
      routes =
        [\<lparr>rt_method = GET, rt_path = ascii ''/models'', rt_endpoint = Ep_list_models\<rparr>,
         \<lparr>rt_method = POST, rt_path = ascii ''/chat/completions'',
          rt_endpoint = Ep_create_chat_completion\<rparr>,
         \<lparr>rt_method = GET, rt_path = ascii ''/model'',
          rt_endpoint = Ep_redirect_model_api\<rparr>]\<rparr>"

definition include_router :: "route list \<Rightarrow> APIRouter \<Rightarrow> route list" where
  "include_router app_routes r =
     app_routes @ map (\<lambda>rt. rt\<lparr>rt_path := prefix r @ rt_path rt\<rparr>) (routes r)"

text \<open>\<^verbatim>\<open>for router in [openai_compatable]: app.include_router(router.router)\<close>.\<close>

definition app :: "route list" where
  "app = foldl include_router [] [router]"

fun match_route :: "route list \<Rightarrow> http_method \<Rightarrow> pystr \<Rightarrow> endpoint option" where
  "match_route [] m p = None"
| "match_route (rt # rest) m p =
     (if rt_method rt = m \<and> rt_path rt = p then Some (rt_endpoint rt)
      else match_route rest m p)"

text \<open>
  \<^verbatim>\<open>RedirectResponse(url="/v1/models")\<close>; the status code is the default of the class,
  307.
\<close>

record RedirectResponse =
  url :: pystr
  status_code :: int

definition redirect_model_api :: RedirectResponse where
  "redirect_model_api = \<lparr>url = ascii ''/v1/models'', status_code = 307\<rparr>"

section \<open>The agent loop: agents/character.py\<close>

text \<open>
  A tool call is the dictionary with the keys \<^verbatim>\<open>name\<close>, \<^verbatim>\<open>args\<close> and \<^verbatim>\<open>id\<close>; the
  arguments are left abstract. A message is one of the four message classes; only an
  \<^verbatim>\<open>AIMessage\<close> has the attribute \<^verbatim>\<open>tool_calls\<close>, only a \<^verbatim>\<open>ToolMessage\<close> has
  \<^verbatim>\<open>tool_call_id\<close>.
\<close>

record 'a tool_call =
  tc_name :: pystr
  tc_args :: 'a
  tc_id :: pystr

datatype 'a message =
    SystemMessage pystr
  | HumanMessage pystr
  | AIMessage pystr "'a tool_call list"
  | ToolMessage pystr pystr

fun tool_calls :: "'a message \<Rightarrow> 'a tool_call list option" where
  "tool_calls (AIMessage c tcs) = Some tcs"
| "tool_calls _ = None"

fun tool_call_id :: "'a message \<Rightarrow> pystr option" where
  "tool_call_id (ToolMessage c i) = Some i"
| "tool_call_id _ = None"

text \<open>
  \<^verbatim>\<open>AgentState\<close> has the one key \<^verbatim>\<open>messages\<close>, annotated with \<^verbatim>\<open>operator.add\<close>: the
  list a node returns under that key is appended to the state.
\<close>

record 'a AgentState =
  st_messages :: "'a message list"

definition apply_update :: "'a AgentState \<Rightarrow> 'a message list \<Rightarrow> 'a AgentState" where
  "apply_update state new_messages =
     state\<lparr>st_messages := st_messages state @ new_messages\<rparr>"

datatype py_error = IndexError | AttributeError | KeyError pystr

text \<open>
  \<^verbatim>\<open>agent_node\<close>: \<open>invoke\<close> is the bound model, \<^verbatim>\<open>model.invoke\<close>, which returns the
  response message or raises.
\<close>

definition agent_node ::
  "('a message list \<Rightarrow> 'x + 'a message) \<Rightarrow> 'a AgentState \<Rightarrow> 'x + 'a message list" where
  "agent_node invoke state =
     (let messages = st_messages state in
      case invoke messages of
        Inl exc \<Rightarrow> Inl exc
      | Inr response \<Rightarrow> Inr [response])"

text \<open>
  \<^verbatim>\<open>tool_executor.batch(calls, return_exceptions=True)\<close> runs the executor on every
  call and returns the outputs in the order of the calls, the exception in the place
  of the output where a call raised. \<open>tool_executor\<close> is the executor on one call,
  \<open>Inl\<close> the exception it raised.
\<close>

definition batch :: "('a tool_call \<Rightarrow> 'e + 'v) \<Rightarrow> 'a tool_call list \<Rightarrow> ('e + 'v) list" where
  "batch tool_executor calls = map tool_executor calls"

text \<open>
  The loop over \<^verbatim>\<open>zip(tool_outputs, last_message.tool_calls)\<close>, with the list
  \<^verbatim>\<open>tool_messages\<close> it appends to. \<open>repr_exc\<close> and \<open>str_out\<close> are Python's \<^verbatim>\<open>repr\<close>
  on exceptions and \<^verbatim>\<open>str\<close> on tool outputs.
\<close>

fun tool_messages_loop ::
  "('e \<Rightarrow> pystr) \<Rightarrow> ('v \<Rightarrow> pystr) \<Rightarrow> (('e + 'v) \<times> 'a tool_call) list \<Rightarrow>
   'a message list \<Rightarrow> 'a message list" where
  "tool_messages_loop repr_exc str_out [] tool_messages = tool_messages"
| "tool_messages_loop repr_exc str_out ((output, tool_call) # rest) tool_messages =
     (case output of
        Inl exc \<Rightarrow>
          tool_messages_loop repr_exc str_out rest
            (tool_messages @ [ToolMessage (ascii ''Error: '' @ repr_exc exc) (tc_id tool_call)])
      | Inr res \<Rightarrow>
          tool_messages_loop repr_exc str_out rest
            (tool_messages @ [ToolMessage (str_out res) (tc_id tool_call)]))"

definition tools_node ::
  "('a tool_call \<Rightarrow> 'e + 'v) \<Rightarrow> ('e \<Rightarrow> pystr) \<Rightarrow> ('v \<Rightarrow> pystr) \<Rightarrow> 'a AgentState \<Rightarrow>
   py_error + 'a message list" where
  "tools_node tool_executor repr_exc str_out state =
     (let messages = st_messages state in
      if messages = [] then Inl IndexError
      else
        let last_message = last messages in
        case tool_calls last_message of
          None \<Rightarrow> Inl AttributeError
        | Some calls \<Rightarrow>
            let tool_outputs = batch tool_executor calls
            in Inr (tool_messages_loop repr_exc str_out (zip tool_outputs calls) []))"

text \<open>
  \<^verbatim>\<open>should_continue\<close>. \<open>END\<close> is the termination marker imported from the graph library
  (there the string \<^verbatim>\<open>"__end__"\<close>); it is an argument of the model.
  \<^verbatim>\<open>hasattr(last_message, "tool_calls") and last_message.tool_calls\<close> holds when the
  attribute exists and the list is not empty.
\<close>

definition should_continue :: "pystr \<Rightarrow> 'a AgentState \<Rightarrow> py_error + pystr" where
  "should_continue END state =
     (let messages = st_messages state in
      if messages = [] then Inl IndexError
      else
        let last_message = last messages in
        case tool_calls last_message of
          Some calls \<Rightarrow> if calls \<noteq> [] then Inr (ascii ''tools'') else Inr END
        | None \<Rightarrow> Inr END)"

text \<open>
  The graph: entry point \<^verbatim>\<open>"agent"\<close>; from \<^verbatim>\<open>"agent"\<close> the conditional edges, whose
  destination is the entry of the dictionary
  \<^verbatim>\<open>{"tools": "tools", "END": END}\<close> under the key \<^verbatim>\<open>should_continue\<close> returned (a
  key that is not in the dictionary raises \<^verbatim>\<open>KeyError\<close>); from \<^verbatim>\<open>"tools"\<close> the plain
  edge to \<^verbatim>\<open>"agent"\<close>. \<open>next_node\<close> gives the destination after the node named has
  run; the run is over when the destination is \<open>END\<close>.
\<close>

definition entry_point :: pystr where
  "entry_point = ascii ''agent''"

definition conditional_edges :: "pystr \<Rightarrow> (pystr \<times> pystr) list" where
  "conditional_edges END = [(ascii ''tools'', ascii ''tools''), (ascii ''END'', END)]"

definition next_node :: "pystr \<Rightarrow> pystr \<Rightarrow> 'a AgentState \<Rightarrow> py_error + pystr" where
  "next_node END node state =
     (if node = ascii ''agent'' then
        (case should_continue END state of
           Inl exc \<Rightarrow> Inl exc
         | Inr key \<Rightarrow>
             (case map_of (conditional_edges END) key of
                None \<Rightarrow> Inl (KeyError key)
              | Some destination \<Rightarrow> Inr destination))
      else if node = ascii ''tools'' then Inr (ascii ''agent'')
      else Inl (KeyError node))"

section \<open>Properties of the facade\<close>

lemma ascii_eq_iff [simp]: "ascii s = ascii t \<longleftrightarrow> s = t"
proof -
  have "inj (of_char :: char \<Rightarrow> nat)"
    by (rule injI) simp
  then have "inj (map (of_char :: char \<Rightarrow> nat))"
    by simp
  then show ?thesis
    unfolding ascii_def by (auto dest: injD)
qed

lemma role_str_user [simp]: "role_str r = ascii ''user'' \<longleftrightarrow> r = User"
  by (cases r) simp_all

lemma d_role_model_dump [simp]: "d_role (model_dump m) = ascii ''user'' \<longleftrightarrow> role m = User"
  by (simp add: model_dump_def)

lemma d_content_model_dump [simp]: "d_content (model_dump m) = content m"
  by (simp add: model_dump_def)

text \<open>The loop leaves the variable as it is when no dictionary has the role \<open>user\<close>.\<close>

lemma last_user_loop_none:
  "\<forall>d \<in> set ds. d_role d \<noteq> ascii ''user'' \<Longrightarrow> last_user_loop ds v = v"
  by (induction ds) simp_all

text \<open>The loop stops at the first dictionary of role \<open>user\<close> and returns its content.\<close>

lemma last_user_loop_first:
  "\<forall>d \<in> set ds. d_role d \<noteq> ascii ''user'' \<Longrightarrow> d_role x = ascii ''user'' \<Longrightarrow>
     last_user_loop (ds @ x # es) v = d_content x"
  by (induction ds) simp_all

lemma last_user_loop_last_entry:
  assumes "role m = User" and "\<forall>x \<in> set post. role x \<noteq> User"
  shows "last_user_loop (rev (map model_dump (pre @ m # post))) [] = content m"
proof -
  have "rev (map model_dump (pre @ m # post)) =
          rev (map model_dump post) @ model_dump m # rev (map model_dump pre)"
    by simp
  moreover have "\<forall>d \<in> set (rev (map model_dump post)). d_role d \<noteq> ascii ''user''"
    using assms(2) by simp
  moreover have "d_role (model_dump m) = ascii ''user''"
    using assms(1) by simp
  ultimately show ?thesis
    by (simp only: last_user_loop_first d_content_model_dump)
qed

lemma fake_llm_call_no_user:
  "\<forall>d \<in> set ds. d_role d \<noteq> ascii ''user'' \<Longrightarrow> fake_llm_call ds = greeting"
  by (simp add: fake_llm_call_def last_user_loop_none)

lemma fake_llm_call_last_user:
  assumes "role m = User" and "\<forall>x \<in> set post. role x \<noteq> User"
  shows "fake_llm_call (map model_dump (pre @ m # post)) =
           (if content m = [] then greeting else reply_template (content m))"
  unfolding fake_llm_call_def Let_def last_user_loop_last_entry [OF assms] by simp

text \<open>What the handler returns for a supported model.\<close>

lemma create_chat_completion_supported:
  assumes "model request \<in> set supported_models"
  shows "create_chat_completion uuid_hex now request =
           Inr \<lparr>ccr_id = ascii ''chatcmpl-'' @ uuid_hex,
                ccr_object = ascii ''chat.completion'',
                ccr_created = now,
                ccr_model = model request,
                choices =
                  [\<lparr>index = 0,
                    message = \<lparr>role = Assistant,
                               content = fake_llm_call (map model_dump (messages request))\<rparr>,
                    finish_reason = Stop\<rparr>],
                usage =
                  \<lparr>prompt_tokens = (\<Sum>m\<leftarrow>messages request. int (length (content m))),
                   completion_tokens =
                     int (length (fake_llm_call (map model_dump (messages request)))),
                   total_tokens =
                     (\<Sum>m\<leftarrow>messages request. int (length (content m))) +
                     int (length (fake_llm_call (map model_dump (messages request))))\<rparr>\<rparr>"
  using assms
  by (simp add: create_chat_completion_def Let_def new_ChatCompletionResponse_def
      new_ChatChoice_def comp_def)

lemma create_chat_completion_unsupported:
  assumes "model request \<notin> set supported_models"
  shows "create_chat_completion uuid_hex now request =
           Inl (HTTPException 400 (not_found_detail (model request)))"
  using assms by (simp add: create_chat_completion_def)

lemma greeting_not_template: "greeting \<noteq> reply_template s"
  by (simp add: greeting_def reply_template_def reply_prefix_def)

text \<open>
  C8. \<open>list_models\<close> takes no request; whatever the clock reads, it returns exactly the
  three declared identifiers, in the declared order, each with object \<open>model\<close>, the
  clock reading as creation time and the ownership tag \<open>local-api\<close>.
\<close>

theorem list_models_fixed:
  "map mi_id (ml_data (list_models t1 t2 t3)) =
     [ascii ''gpt-3.5-turbo'', ascii ''gpt-4'', ascii ''custom-local-model'']
   \<and> map mi_object (ml_data (list_models t1 t2 t3)) = replicate 3 (ascii ''model'')
   \<and> map mi_owned_by (ml_data (list_models t1 t2 t3)) = replicate 3 (ascii ''local-api'')
   \<and> map mi_created (ml_data (list_models t1 t2 t3)) = [t1, t2, t3]
   \<and> ml_object (list_models t1 t2 t3) = ascii ''list''"
  by (simp add: list_models_def new_ModelList_def new_ModelInfo_def numeral_3_eq_3)

text \<open>
  C4. A request whose model is none of the three supported names is answered with the
  HTTP error 400, whose detail quotes the model, and with no completion; a request whose
  model is one of the three gets a completion.
\<close>

theorem unsupported_model_rejected:
  "(model request \<notin> {ascii ''gpt-3.5-turbo'', ascii ''gpt-4'', ascii ''custom-local-model''}
      \<longrightarrow> create_chat_completion uuid_hex now request =
            Inl (HTTPException 400
                   (ascii ''Model '' @ [39] @ model request @ [39] @ ascii '' not found.'')))
   \<and> (model request \<in> {ascii ''gpt-3.5-turbo'', ascii ''gpt-4'', ascii ''custom-local-model''}
      \<longrightarrow> (\<exists>response. create_chat_completion uuid_hex now request = Inr response))"
  using create_chat_completion_supported [of request uuid_hex now]
    create_chat_completion_unsupported [of request uuid_hex now]
  by (simp add: supported_models_def not_found_detail_def)

theorem unsupported_model_rejected_witness:
  "create_chat_completion (ascii ''0f'') 1700000000
     \<lparr>model = ascii ''gpt-5'', messages = [\<lparr>role = User, content = ascii ''hi''\<rparr>],
      temperature = None, max_tokens = None\<rparr> =
     Inl (HTTPException 400 (ascii ''Model '' @ [39] @ ascii ''gpt-5'' @ [39] @ ascii '' not found.''))
   \<and> (\<exists>response.
        create_chat_completion (ascii ''0f'') 1700000000
          \<lparr>model = ascii ''gpt-4'', messages = [\<lparr>role = User, content = ascii ''hi''\<rparr>],
           temperature = None, max_tokens = None\<rparr> = Inr response)"
  using
    unsupported_model_rejected [of "\<lparr>model = ascii ''gpt-5'',
      messages = [\<lparr>role = User, content = ascii ''hi''\<rparr>],
      temperature = None, max_tokens = None\<rparr>" "ascii ''0f''" 1700000000]
    unsupported_model_rejected [of "\<lparr>model = ascii ''gpt-4'',
      messages = [\<lparr>role = User, content = ascii ''hi''\<rparr>],
      temperature = None, max_tokens = None\<rparr>" "ascii ''0f''" 1700000000]
  by simp

text \<open>
  C6. For a request with a supported model the handler returns a response whose
  \<open>total_tokens\<close> is \<open>prompt_tokens + completion_tokens\<close>, whose \<open>prompt_tokens\<close> is the
  sum of the lengths of the contents of the request's messages, and whose
  \<open>completion_tokens\<close> is the length of the content of the one message it returns.
\<close>

theorem usage_counts_lengths:
  assumes "model request \<in> set supported_models"
  shows "\<exists>response.
           create_chat_completion uuid_hex now request = Inr response
         \<and> total_tokens (usage response) =
             prompt_tokens (usage response) + completion_tokens (usage response)
         \<and> prompt_tokens (usage response) =
             (\<Sum>m\<leftarrow>messages request. int (length (content m)))
         \<and> completion_tokens (usage response) =
             int (length (fake_llm_call (map model_dump (messages request))))
         \<and> map (\<lambda>c. int (length (content (message c)))) (choices response) =
             [completion_tokens (usage response)]"
  by (simp add: create_chat_completion_supported [OF assms])

theorem usage_counts_lengths_witness:
  "model \<lparr>model = ascii ''gpt-4'',
          messages = [\<lparr>role = System, content = ascii ''be brief''\<rparr>,
                      \<lparr>role = User, content = ascii ''hi''\<rparr>],
          temperature = None, max_tokens = None\<rparr> \<in> set supported_models
   \<and> (\<exists>response.
         create_chat_completion (ascii ''0f'') 1700000000
           \<lparr>model = ascii ''gpt-4'',
            messages = [\<lparr>role = System, content = ascii ''be brief''\<rparr>,
                        \<lparr>role = User, content = ascii ''hi''\<rparr>],
            temperature = None, max_tokens = None\<rparr> = Inr response
       \<and> total_tokens (usage response) = 31
       \<and> prompt_tokens (usage response) = 10
       \<and> completion_tokens (usage response) = 21)"
proof -
  let ?request = "\<lparr>model = ascii ''gpt-4'',
          messages = [\<lparr>role = System, content = ascii ''be brief''\<rparr>,
                      \<lparr>role = User, content = ascii ''hi''\<rparr>],
          temperature = None, max_tokens = None\<rparr>"
  have supported: "model ?request \<in> set supported_models"
    by (simp add: supported_models_def)
  have reply: "length (fake_llm_call (map model_dump (messages ?request))) = 21"
    by (simp add: fake_llm_call_def model_dump_def reply_template_def reply_prefix_def
        reply_suffix_def ascii_def)
  show ?thesis
    using supported usage_counts_lengths [OF supported, of "ascii ''0f''" 1700000000] reply
    by (auto simp add: ascii_def)
qed

text \<open>
  C2, as stated, fails twice. A request with a supported model whose only message is a
  \<open>user\<close> entry of empty content is answered with the greeting, which is not the
  template applied to the empty string; and a request with a \<open>user\<close> entry whose model
  is not supported is answered with the error 400 and no assistant message at all.
\<close>

theorem last_user_template_counterexample:
  "create_chat_completion (ascii ''0f'') 1700000000
     \<lparr>model = ascii ''gpt-4'', messages = [\<lparr>role = User, content = []\<rparr>],
      temperature = None, max_tokens = None\<rparr> =
     Inr \<lparr>ccr_id = ascii ''chatcmpl-0f'', ccr_object = ascii ''chat.completion'',
          ccr_created = 1700000000, ccr_model = ascii ''gpt-4'',
          choices = [\<lparr>index = 0, message = \<lparr>role = Assistant, content = greeting\<rparr>,
                      finish_reason = Stop\<rparr>],
          usage = \<lparr>prompt_tokens = 0, completion_tokens = 14, total_tokens = 14\<rparr>\<rparr>
   \<and> greeting \<noteq> reply_template []
   \<and> create_chat_completion (ascii ''0f'') 1700000000
     \<lparr>model = ascii ''gpt-5'', messages = [\<lparr>role = User, content = ascii ''hi''\<rparr>],
      temperature = None, max_tokens = None\<rparr> =
     Inl (HTTPException 400
            (ascii ''Model '' @ [39] @ ascii ''gpt-5'' @ [39] @ ascii '' not found.''))"
proof -
  have "fake_llm_call [model_dump \<lparr>role = User, content = []\<rparr>] = greeting"
    by (simp add: fake_llm_call_def)
  moreover have "length greeting = 14"
    by (simp add: greeting_def)
  ultimately show ?thesis
    by (simp add: create_chat_completion_def supported_models_def not_found_detail_def
        new_ChatCompletionResponse_def new_ChatChoice_def greeting_not_template ascii_def)
qed

text \<open>
  C2, amended. For a request with a supported model, if the last \<open>user\<close> entry of the
  message list has a content that is not empty, the handler returns a response whose one
  message has the role \<open>assistant\<close> and, as content, the template applied to the content of
  that entry.
\<close>

theorem last_user_template:
  assumes "model request \<in> set supported_models"
    and "messages request = pre @ m # post"
    and "role m = User"
    and "\<forall>x \<in> set post. role x \<noteq> User"
    and "content m \<noteq> []"
  shows "\<exists>response.
           create_chat_completion uuid_hex now request = Inr response
         \<and> map message (choices response) =
             [\<lparr>role = Assistant, content = reply_template (content m)\<rparr>]"
proof -
  have "fake_llm_call (map model_dump (pre @ m # post)) = reply_template (content m)"
    using assms(5) by (simp only: fake_llm_call_last_user [OF assms(3,4)] if_False)
  then have "fake_llm_call (map model_dump (messages request)) = reply_template (content m)"
    by (simp only: assms(2))
  then show ?thesis
    by (simp add: create_chat_completion_supported [OF assms(1)])
qed

theorem last_user_template_witness:
  "model \<lparr>model = ascii ''gpt-4'',
          messages = [\<lparr>role = User, content = ascii ''old''\<rparr>,
                      \<lparr>role = User, content = ascii ''hi''\<rparr>,
                      \<lparr>role = Assistant, content = ascii ''yes''\<rparr>],
          temperature = None, max_tokens = None\<rparr> \<in> set supported_models
   \<and> (\<exists>response.
         create_chat_completion (ascii ''0f'') 1700000000
           \<lparr>model = ascii ''gpt-4'',
            messages = [\<lparr>role = User, content = ascii ''old''\<rparr>,
                        \<lparr>role = User, content = ascii ''hi''\<rparr>,
                        \<lparr>role = Assistant, content = ascii ''yes''\<rparr>],
            temperature = None, max_tokens = None\<rparr> = Inr response
       \<and> map message (choices response) =
           [\<lparr>role = Assistant, content = reply_template (ascii ''hi'')\<rparr>])"
proof -
  let ?request = "\<lparr>model = ascii ''gpt-4'',
          messages = [\<lparr>role = User, content = ascii ''old''\<rparr>,
                      \<lparr>role = User, content = ascii ''hi''\<rparr>,
                      \<lparr>role = Assistant, content = ascii ''yes''\<rparr>],
          temperature = None, max_tokens = None\<rparr>"
  have supported: "model ?request \<in> set supported_models"
    by (simp add: supported_models_def)
  have split: "messages ?request =
      [\<lparr>role = User, content = ascii ''old''\<rparr>] @ \<lparr>role = User, content = ascii ''hi''\<rparr> #
      [\<lparr>role = Assistant, content = ascii ''yes''\<rparr>]"
    by simp
  have is_user: "role \<lparr>role = User, content = ascii ''hi''\<rparr> = User"
    by simp
  have later: "\<forall>x \<in> set [\<lparr>role = Assistant, content = ascii ''yes''\<rparr>]. role x \<noteq> User"
    by simp
  have nonempty: "content \<lparr>role = User, content = ascii ''hi''\<rparr> \<noteq> []"
    by (simp add: ascii_def)
  show ?thesis
    using supported
      last_user_template [OF supported split is_user later nonempty, of "ascii ''0f''" 1700000000]
    by simp
qed

text \<open>
  C3, as stated, fails: a request without any \<open>user\<close> entry whose model is not supported
  is answered with the error 400, not with the greeting.
\<close>

theorem no_user_greeting_counterexample:
  "create_chat_completion (ascii ''0f'') 1700000000
     \<lparr>model = ascii ''gpt-5'', messages = [\<lparr>role = System, content = ascii ''be brief''\<rparr>],
      temperature = None, max_tokens = None\<rparr> =
     Inl (HTTPException 400
            (ascii ''Model '' @ [39] @ ascii ''gpt-5'' @ [39] @ ascii '' not found.''))"
  by (simp add: create_chat_completion_def supported_models_def not_found_detail_def)

text \<open>
  C3, amended. For a request with a supported model whose message list has no entry of
  role \<open>user\<close>, whatever other entries it has, the handler returns a response whose one
  message has the role \<open>assistant\<close> and the greeting as content.
\<close>

theorem no_user_greeting:
  assumes "model request \<in> set supported_models"
    and "\<forall>x \<in> set (messages request). role x \<noteq> User"
  shows "\<exists>response.
           create_chat_completion uuid_hex now request = Inr response
         \<and> map message (choices response) = [\<lparr>role = Assistant, content = greeting\<rparr>]"
proof -
  have "\<forall>d \<in> set (map model_dump (messages request)). d_role d \<noteq> ascii ''user''"
    using assms(2) by simp
  then have "fake_llm_call (map model_dump (messages request)) = greeting"
    by (rule fake_llm_call_no_user)
  then show ?thesis
    by (simp add: create_chat_completion_supported [OF assms(1)])
qed

theorem no_user_greeting_witness:
  "model \<lparr>model = ascii ''gpt-4'',
          messages = [\<lparr>role = System, content = ascii ''be brief''\<rparr>,
                      \<lparr>role = Assistant, content = ascii ''yes''\<rparr>],
          temperature = None, max_tokens = None\<rparr> \<in> set supported_models
   \<and> User \<notin> set (map role [\<lparr>role = System, content = ascii ''be brief''\<rparr>,
                               \<lparr>role = Assistant, content = ascii ''yes''\<rparr>])
   \<and> (\<exists>response.
         create_chat_completion (ascii ''0f'') 1700000000
           \<lparr>model = ascii ''gpt-4'',
            messages = [\<lparr>role = System, content = ascii ''be brief''\<rparr>,
                        \<lparr>role = Assistant, content = ascii ''yes''\<rparr>],
            temperature = None, max_tokens = None\<rparr> = Inr response
       \<and> map message (choices response) = [\<lparr>role = Assistant, content = greeting\<rparr>])"
proof -
  let ?request = "\<lparr>model = ascii ''gpt-4'',
          messages = [\<lparr>role = System, content = ascii ''be brief''\<rparr>,
                      \<lparr>role = Assistant, content = ascii ''yes''\<rparr>],
          temperature = None, max_tokens = None\<rparr>"
  have supported: "model ?request \<in> set supported_models"
    by (simp add: supported_models_def)
  have no_user: "\<forall>x \<in> set (messages ?request). role x \<noteq> User"
    by simp
  show ?thesis
    using supported no_user
      no_user_greeting [OF supported no_user, of "ascii ''0f''" 1700000000]
    by simp
qed

text \<open>
  C10. If the last \<open>user\<close> entry of the request's message list has the empty string as
  content, the generated reply is the greeting, which differs from the template applied
  to the empty string, and so is the content returned when the model is supported. Every
  response the handler returns has exactly one choice, of index 0, role \<open>assistant\<close> and
  finish reason \<open>stop\<close>.
\<close>

theorem empty_user_content_greeting:
  "(messages request = pre @ m # post \<and> role m = User \<and> content m = []
      \<and> (\<forall>x \<in> set post. role x \<noteq> User)
    \<longrightarrow> fake_llm_call (map model_dump (messages request)) = greeting
        \<and> fake_llm_call (map model_dump (messages request)) \<noteq> reply_template []
        \<and> (model request \<in> set supported_models \<longrightarrow>
             (\<exists>response. create_chat_completion uuid_hex now request = Inr response
                \<and> map (\<lambda>c. content (message c)) (choices response) = [greeting])))
   \<and> (\<forall>response. create_chat_completion uuid_hex now request = Inr response \<longrightarrow>
        (\<exists>c. choices response = [c] \<and> index c = 0 \<and> role (message c) = Assistant
           \<and> finish_reason c = Stop))"
proof (intro conjI impI allI)
  assume h: "messages request = pre @ m # post \<and> role m = User \<and> content m = []
      \<and> (\<forall>x \<in> set post. role x \<noteq> User)"
  then have "fake_llm_call (map model_dump (pre @ m # post)) = greeting"
    using fake_llm_call_last_user [of m post pre] by simp
  with h show reply: "fake_llm_call (map model_dump (messages request)) = greeting"
    by simp
  then show "fake_llm_call (map model_dump (messages request)) \<noteq> reply_template []"
    by (simp add: greeting_not_template)
  assume "model request \<in> set supported_models"
  then show "\<exists>response. create_chat_completion uuid_hex now request = Inr response
                \<and> map (\<lambda>c. content (message c)) (choices response) = [greeting]"
    using reply by (simp add: create_chat_completion_supported)
next
  fix response
  assume r: "create_chat_completion uuid_hex now request = Inr response"
  show "\<exists>c. choices response = [c] \<and> index c = 0 \<and> role (message c) = Assistant
           \<and> finish_reason c = Stop"
  proof (cases "model request \<in> set supported_models")
    case True
    then show ?thesis
      using r by (auto simp add: create_chat_completion_supported)
  next
    case False
    then show ?thesis
      using r by (simp add: create_chat_completion_unsupported)
  qed
qed

theorem empty_user_content_greeting_witness:
  "fake_llm_call (map model_dump
       [\<lparr>role = User, content = ascii ''hi''\<rparr>, \<lparr>role = User, content = []\<rparr>,
        \<lparr>role = Assistant, content = ascii ''yes''\<rparr>]) = greeting
   \<and> (\<exists>response.
        create_chat_completion (ascii ''0f'') 1700000000
          \<lparr>model = ascii ''gpt-4'',
           messages = [\<lparr>role = User, content = ascii ''hi''\<rparr>, \<lparr>role = User, content = []\<rparr>,
                       \<lparr>role = Assistant, content = ascii ''yes''\<rparr>],
           temperature = None, max_tokens = None\<rparr> = Inr response
      \<and> map (\<lambda>c. content (message c)) (choices response) = [greeting]
      \<and> (\<exists>c. choices response = [c] \<and> index c = 0 \<and> role (message c) = Assistant
           \<and> finish_reason c = Stop))"
proof -
  let ?request = "\<lparr>model = ascii ''gpt-4'',
           messages = [\<lparr>role = User, content = ascii ''hi''\<rparr>, \<lparr>role = User, content = []\<rparr>,
                       \<lparr>role = Assistant, content = ascii ''yes''\<rparr>],
           temperature = None, max_tokens = None\<rparr>"
  have supported: "model ?request \<in> set supported_models"
    by (simp add: supported_models_def)
  have shape: "messages ?request =
      [\<lparr>role = User, content = ascii ''hi''\<rparr>] @ \<lparr>role = User, content = []\<rparr> #
      [\<lparr>role = Assistant, content = ascii ''yes''\<rparr>]
    \<and> role \<lparr>role = User, content = []\<rparr> = User
    \<and> content \<lparr>role = User, content = []\<rparr> = []
    \<and> (\<forall>x \<in> set [\<lparr>role = Assistant, content = ascii ''yes''\<rparr>]. role x \<noteq> User)"
    by simp
  note fact = empty_user_content_greeting [of ?request
      "[\<lparr>role = User, content = ascii ''hi''\<rparr>]" "\<lparr>role = User, content = []\<rparr>"
      "[\<lparr>role = Assistant, content = ascii ''yes''\<rparr>]" "ascii ''0f''" 1700000000]
  have first: "fake_llm_call (map model_dump (messages ?request)) = greeting
      \<and> fake_llm_call (map model_dump (messages ?request)) \<noteq> reply_template []
      \<and> (model ?request \<in> set supported_models \<longrightarrow>
           (\<exists>response. create_chat_completion (ascii ''0f'') 1700000000 ?request = Inr response
              \<and> map (\<lambda>c. content (message c)) (choices response) = [greeting]))"
    by (rule mp [OF conjunct1 [OF fact] shape])
  then have g: "fake_llm_call (map model_dump (messages ?request)) = greeting"
    by (rule conjunct1)
  have "\<exists>response. create_chat_completion (ascii ''0f'') 1700000000 ?request = Inr response
              \<and> map (\<lambda>c. content (message c)) (choices response) = [greeting]"
    by (rule mp [OF conjunct2 [OF conjunct2 [OF first]] supported])
  then obtain response where
    rc: "create_chat_completion (ascii ''0f'') 1700000000 ?request = Inr response
       \<and> map (\<lambda>c. content (message c)) (choices response) = [greeting]" ..
  then have r: "create_chat_completion (ascii ''0f'') 1700000000 ?request = Inr response"
    and c: "map (\<lambda>c. content (message c)) (choices response) = [greeting]"
    by (rule conjunct1, rule conjunct2)
  have "\<exists>c. choices response = [c] \<and> index c = 0 \<and> role (message c) = Assistant
           \<and> finish_reason c = Stop"
    by (rule mp [OF spec [OF conjunct2 [OF fact]] r])
  with r c g show ?thesis
    by auto
qed

section \<open>Properties of the routes\<close>

text \<open>
  C9. The handler \<open>redirect_model_api\<close>, which answers with a redirect to \<open>/v1/models\<close>,
  is registered under the router's prefix: the application serves it at
  \<open>GET /v1/model\<close>, and no route of the application answers \<open>GET /model\<close>.
\<close>

theorem legacy_model_route:
  "match_route app GET (ascii ''/model'') = None
   \<and> match_route app GET (ascii ''/v1/model'') = Some Ep_redirect_model_api
   \<and> redirect_model_api = \<lparr>url = ascii ''/v1/models'', status_code = 307\<rparr>"
  by (simp add: app_def include_router_def router_def redirect_model_api_def ascii_def)

section \<open>Properties of the agent loop\<close>

text \<open>The loop appends one tool message for each call, in the order of the calls.\<close>

lemma tool_messages_loop_map:
  "tool_messages_loop repr_exc str_out (zip (map tool_executor calls) calls) acc =
     acc @ map (\<lambda>tc. case tool_executor tc of
                        Inl exc \<Rightarrow> ToolMessage (ascii ''Error: '' @ repr_exc exc) (tc_id tc)
                      | Inr res \<Rightarrow> ToolMessage (str_out res) (tc_id tc)) calls"
  by (induction calls arbitrary: acc) (simp_all split: sum.split)

lemma tools_node_last_ai:
  assumes "st_messages state = pre @ [AIMessage c calls]"
  shows "tools_node tool_executor repr_exc str_out state =
           Inr (map (\<lambda>tc. case tool_executor tc of
                        Inl exc \<Rightarrow> ToolMessage (ascii ''Error: '' @ repr_exc exc) (tc_id tc)
                      | Inr res \<Rightarrow> ToolMessage (str_out res) (tc_id tc)) calls)"
  by (simp add: tools_node_def assms batch_def tool_messages_loop_map)

lemma should_continue_last_ai:
  assumes "st_messages state = pre @ [AIMessage c calls]"
  shows "should_continue END state = (if calls \<noteq> [] then Inr (ascii ''tools'') else Inr END)"
  by (simp add: should_continue_def assms)

text \<open>
  C1. Let the last entry of the state be an assistant message. If it carries no tool
  call, \<open>should_continue\<close> returns the marker \<open>END\<close>, and unless that marker is one of
  the strings \<open>tools\<close> and \<open>END\<close>, the conditional edge has no destination for it: the
  routing raises \<open>KeyError\<close> instead of ending the run. If it carries a tool call, the
  routing goes to \<open>tools\<close>, and from \<open>tools\<close> the next node is \<open>agent\<close>, whatever the
  state.
\<close>

theorem routing_after_agent:
  assumes "st_messages state = pre @ [AIMessage c calls]"
  shows "(calls = [] \<longrightarrow>
            should_continue END state = Inr END
          \<and> (END \<noteq> ascii ''tools'' \<and> END \<noteq> ascii ''END'' \<longrightarrow>
               next_node END (ascii ''agent'') state = Inl (KeyError END))
          \<and> (END = ascii ''END'' \<longrightarrow> next_node END (ascii ''agent'') state = Inr END))
       \<and> (calls \<noteq> [] \<longrightarrow>
            next_node END (ascii ''agent'') state = Inr (ascii ''tools'')
          \<and> next_node END (ascii ''tools'') state' = Inr (ascii ''agent''))"
  by (simp add: next_node_def should_continue_last_ai [OF assms] conditional_edges_def)

theorem routing_after_agent_witness:
  "next_node (ascii ''__end__'') (ascii ''agent'')
     \<lparr>st_messages = [HumanMessage (ascii ''hi''), AIMessage (ascii ''done'') ([] :: unit tool_call list)]\<rparr> =
     Inl (KeyError (ascii ''__end__''))
   \<and> next_node (ascii ''__end__'') (ascii ''agent'')
     \<lparr>st_messages = [HumanMessage (ascii ''hi''),
        AIMessage [] [\<lparr>tc_name = ascii ''search'', tc_args = (), tc_id = ascii ''call_1''\<rparr>]]\<rparr> =
     Inr (ascii ''tools'')
   \<and> next_node (ascii ''__end__'') (ascii ''tools'')
     \<lparr>st_messages = [HumanMessage (ascii ''hi''),
        AIMessage [] [\<lparr>tc_name = ascii ''search'', tc_args = (), tc_id = ascii ''call_1''\<rparr>],
        ToolMessage (ascii ''42'') (ascii ''call_1'')]\<rparr> =
     Inr (ascii ''agent'')"
proof -
  let ?tc = "\<lparr>tc_name = ascii ''search'', tc_args = (), tc_id = ascii ''call_1''\<rparr>"
  let ?s0 = "\<lparr>st_messages = [HumanMessage (ascii ''hi''), AIMessage (ascii ''done'') ([] :: unit tool_call list)]\<rparr>"
  let ?s1 = "\<lparr>st_messages = [HumanMessage (ascii ''hi''), AIMessage [] [?tc]]\<rparr>"
  let ?s2 = "\<lparr>st_messages = [HumanMessage (ascii ''hi''), AIMessage [] [?tc],
                ToolMessage (ascii ''42'') (ascii ''call_1'')]\<rparr>"
  have h0: "st_messages ?s0 = [HumanMessage (ascii ''hi'')] @ [AIMessage (ascii ''done'') ([] :: unit tool_call list)]"
    by simp
  have h1: "st_messages ?s1 = [HumanMessage (ascii ''hi'')] @ [AIMessage [] [?tc]]"
    by simp
  show ?thesis
    using routing_after_agent [OF h0, of "ascii ''__end__''"]
      routing_after_agent [OF h1, of "ascii ''__end__''" ?s2]
    by simp
qed

text \<open>
  C5. When the last entry of the state is an assistant message, the tool step returns
  one tool message for each of its tool calls: the entry at the position of a call has
  the identifier of that call, and where the call raised, its content is \<open>Error: \<close>
  followed by the representation of the exception. A call that raises leaves the entries
  of the other calls in place.
\<close>

theorem tools_node_error_entries:
  assumes "st_messages state = pre @ [AIMessage c calls]"
  shows "\<exists>out.
           tools_node tool_executor repr_exc str_out state = Inr out
         \<and> length out = length calls
         \<and> (\<forall>k < length calls.
              tool_call_id (out ! k) = Some (tc_id (calls ! k))
            \<and> (\<forall>exc. tool_executor (calls ! k) = Inl exc \<longrightarrow>
                 out ! k = ToolMessage (ascii ''Error: '' @ repr_exc exc) (tc_id (calls ! k)))
            \<and> (\<forall>res. tool_executor (calls ! k) = Inr res \<longrightarrow>
                 out ! k = ToolMessage (str_out res) (tc_id (calls ! k))))"
  by (auto simp add: tools_node_last_ai [OF assms] split: sum.split)

theorem tools_node_error_entries_witness:
  "tools_node (\<lambda>tc. if tc_name tc = ascii ''boom'' then Inl (0::nat) else Inr (42::nat))
     (\<lambda>exc. ascii ''ValueError()'') (\<lambda>res. ascii ''42'')
     \<lparr>st_messages = [HumanMessage (ascii ''hi''),
        AIMessage [] [\<lparr>tc_name = ascii ''boom'', tc_args = (), tc_id = ascii ''call_1''\<rparr>,
                      \<lparr>tc_name = ascii ''search'', tc_args = (), tc_id = ascii ''call_2''\<rparr>]]\<rparr> =
     Inr [ToolMessage (ascii ''Error: ValueError()'') (ascii ''call_1''),
          ToolMessage (ascii ''42'') (ascii ''call_2'')]"
proof -
  let ?c1 = "\<lparr>tc_name = ascii ''boom'', tc_args = (), tc_id = ascii ''call_1''\<rparr>"
  let ?c2 = "\<lparr>tc_name = ascii ''search'', tc_args = (), tc_id = ascii ''call_2''\<rparr>"
  let ?exec = "\<lambda>tc :: unit tool_call.
                 if tc_name tc = ascii ''boom'' then Inl (0::nat) else Inr (42::nat)"
  let ?state = "\<lparr>st_messages = [HumanMessage (ascii ''hi''), AIMessage [] [?c1, ?c2]]\<rparr>"
  have h: "st_messages ?state = [HumanMessage (ascii ''hi'')] @ [AIMessage [] [?c1, ?c2]]"
    by simp
  from tools_node_error_entries [OF h, of ?exec "\<lambda>exc. ascii ''ValueError()''"
      "\<lambda>res. ascii ''42''"]
  obtain out where
    run: "tools_node ?exec (\<lambda>exc. ascii ''ValueError()'') (\<lambda>res. ascii ''42'') ?state = Inr out"
    and len: "length out = length [?c1, ?c2]"
    and each: "\<forall>k < length [?c1, ?c2].
              tool_call_id (out ! k) = Some (tc_id ([?c1, ?c2] ! k))
            \<and> (\<forall>exc. ?exec ([?c1, ?c2] ! k) = Inl exc \<longrightarrow>
                 out ! k = ToolMessage (ascii ''Error: '' @ ascii ''ValueError()'')
                             (tc_id ([?c1, ?c2] ! k)))
            \<and> (\<forall>res. ?exec ([?c1, ?c2] ! k) = Inr res \<longrightarrow>
                 out ! k = ToolMessage (ascii ''42'') (tc_id ([?c1, ?c2] ! k)))"
    by (elim exE conjE)
  from each [rule_format, of 0]
  have first: "out ! 0 = ToolMessage (ascii ''Error: ValueError()'') (ascii ''call_1'')"
    by (simp add: ascii_def)
  from each [rule_format, of 1]
  have second: "out ! 1 = ToolMessage (ascii ''42'') (ascii ''call_2'')"
    by simp
  from len have "out = [out ! 0, out ! 1]"
    by (cases out; cases "tl out"; cases "tl (tl out)") auto
  with first second run show ?thesis
    by simp
qed

text \<open>
  C7. When the last entry of the state is an assistant message with at least one tool
  call, the tool messages the tool step returns carry the identifiers of the calls in
  the order of the calls, and they are appended to the conversation in that order: the
  k-th entry after the old conversation has the identifier of the k-th call.
\<close>

theorem tools_node_keeps_order:
  assumes "st_messages state = pre @ [AIMessage c calls]"
    and "calls \<noteq> []"
  shows "\<exists>out.
           tools_node tool_executor repr_exc str_out state = Inr out
         \<and> map tool_call_id out = map (\<lambda>tc. Some (tc_id tc)) calls
         \<and> st_messages (apply_update state out) = st_messages state @ out
         \<and> (\<forall>k < length calls.
              tool_call_id (st_messages (apply_update state out) ! (length (st_messages state) + k))
                = Some (tc_id (calls ! k)))"
proof -
  let ?out = "map (\<lambda>tc. case tool_executor tc of
                        Inl exc \<Rightarrow> ToolMessage (ascii ''Error: '' @ repr_exc exc) (tc_id tc)
                      | Inr res \<Rightarrow> ToolMessage (str_out res) (tc_id tc)) calls"
  have run: "tools_node tool_executor repr_exc str_out state = Inr ?out"
    by (rule tools_node_last_ai [OF assms(1)])
  have ids: "map tool_call_id ?out = map (\<lambda>tc. Some (tc_id tc)) calls"
    by (simp add: comp_def split: sum.split)
  have app: "st_messages (apply_update state ?out) = st_messages state @ ?out"
    by (simp add: apply_update_def)
  have "\<forall>k < length calls.
          tool_call_id ((st_messages state @ ?out) ! (length (st_messages state) + k))
            = Some (tc_id (calls ! k))"
    by (simp add: nth_append split: sum.split)
  with run ids app show ?thesis
    by (intro exI [of _ ?out]) (simp only: simp_thms)
qed

theorem tools_node_keeps_order_witness:
  "\<exists>out.
     tools_node (\<lambda>tc. if tc_name tc = ascii ''boom'' then Inl (0::nat) else Inr (42::nat))
       (\<lambda>exc. ascii ''ValueError()'') (\<lambda>res. ascii ''42'')
       \<lparr>st_messages = [HumanMessage (ascii ''hi''),
          AIMessage [] [\<lparr>tc_name = ascii ''boom'', tc_args = (), tc_id = ascii ''call_1''\<rparr>,
                        \<lparr>tc_name = ascii ''search'', tc_args = (), tc_id = ascii ''call_2''\<rparr>]]\<rparr>
       = Inr out
   \<and> map tool_call_id out = [Some (ascii ''call_1''), Some (ascii ''call_2'')]"
proof -
  let ?c1 = "\<lparr>tc_name = ascii ''boom'', tc_args = (), tc_id = ascii ''call_1''\<rparr>"
  let ?c2 = "\<lparr>tc_name = ascii ''search'', tc_args = (), tc_id = ascii ''call_2''\<rparr>"
  let ?exec = "\<lambda>tc :: unit tool_call.
                 if tc_name tc = ascii ''boom'' then Inl (0::nat) else Inr (42::nat)"
  let ?state = "\<lparr>st_messages = [HumanMessage (ascii ''hi''), AIMessage [] [?c1, ?c2]]\<rparr>"
  have h: "st_messages ?state = [HumanMessage (ascii ''hi'')] @ [AIMessage [] [?c1, ?c2]]"
    by simp
  have ne: "[?c1, ?c2] \<noteq> []"
    by simp
  from tools_node_keeps_order [OF h ne, of ?exec "\<lambda>exc. ascii ''ValueError()''"
      "\<lambda>res. ascii ''42''"]
  show ?thesis
    by auto
qed

end
